theory Spec2Isabelle
  imports Main
begin

section \<open>Errors\<close>

text \<open>
  Go error values, as far as \<^verbatim>\<open>pkg/server/server.go\<close> tells them apart:
  the sentinel \<^verbatim>\<open>http.ErrServerClosed\<close>, the sentinel \<^verbatim>\<open>net.ErrClosed\<close>, a
  plain error with a message, and an error that wraps another one and carries its own
  message.
\<close>

datatype error =
    ErrServerClosed
  | ErrClosed
  | ErrorString string
  | Wrapped string error

text \<open>\<^verbatim>\<open>err.Error()\<close>, which is what \<^verbatim>\<open>%s\<close> prints for an error.\<close>

fun Error :: "error \<Rightarrow> string" where
  "Error ErrServerClosed = ''http: Server closed''"
| "Error ErrClosed = ''use of closed network connection''"
| "Error (ErrorString m) = m"
| "Error (Wrapped m e) = m"

text \<open>\<^verbatim>\<open>errors.Is(err, target)\<close>: walks the chain of wrapped errors.\<close>

fun errors_Is :: "error \<Rightarrow> error \<Rightarrow> bool" where
  "errors_Is (Wrapped m e) target = (Wrapped m e = target \<or> errors_Is e target)"
| "errors_Is err target = (err = target)"

section \<open>Strings\<close>

text \<open>\<^verbatim>\<open>strings.HasPrefix\<close> and \<^verbatim>\<open>strings.Contains\<close>.\<close>

fun strings_HasPrefix :: "string \<Rightarrow> string \<Rightarrow> bool" where
  "strings_HasPrefix s [] = True"
| "strings_HasPrefix [] (c # sub) = False"
| "strings_HasPrefix (d # s) (c # sub) = (d = c \<and> strings_HasPrefix s sub)"

fun strings_Contains :: "string \<Rightarrow> string \<Rightarrow> bool" where
  "strings_Contains [] substr = (substr = [])"
| "strings_Contains (c # s) substr =
     (strings_HasPrefix (c # s) substr \<or> strings_Contains s substr)"

section \<open>HTTP requests and response writers\<close>

text \<open>
  The fields of \<^verbatim>\<open>http.Request\<close> that the handlers read. \<^verbatim>\<open>Header\<close> is keyed
  by canonical header names, \<^verbatim>\<open>Query\<close> is the parsed \<^verbatim>\<open>r.URL.Query()\<close>, and
  \<^verbatim>\<open>Body\<close> is the request body as it arrives.
\<close>

record Request =
  ProtoMajor :: int
  Header :: "string \<rightharpoonup> string list"
  Path :: string
  Query :: "string \<rightharpoonup> string list"
  Body :: string

text \<open>
  \<^verbatim>\<open>Header.Get\<close> and \<^verbatim>\<open>url.Values.Get\<close>: the first value stored under the
  key, the empty string when there is none.
\<close>

definition Values_Get :: "(string \<rightharpoonup> string list) \<Rightarrow> string \<Rightarrow> string" where
  "Values_Get vs key =
     (case vs key of None \<Rightarrow> [] | Some [] \<Rightarrow> [] | Some (v # rest) \<Rightarrow> v)"

text \<open>\<^verbatim>\<open>params["filters"]\<close>: the stored slice, nil (no element) when absent.\<close>

definition Values_index :: "(string \<rightharpoonup> string list) \<Rightarrow> string \<Rightarrow> string list" where
  "Values_index vs key = (case vs key of None \<Rightarrow> [] | Some l \<Rightarrow> l)"

text \<open>
  An \<^verbatim>\<open>http.ResponseWriter\<close>: the status line once it has been written, and the
  body written so far. \<^verbatim>\<open>WriteHeader\<close> fixes the status the first time it is called;
  \<^verbatim>\<open>Write\<close> sends an implicit 200 when no status has been written yet.
\<close>

record ResponseWriter =
  status :: "nat option"
  written :: string

definition new_ResponseWriter :: ResponseWriter where
  "new_ResponseWriter = \<lparr>status = None, written = []\<rparr>"

definition StatusOK :: nat where
  "StatusOK = 200"

definition StatusNotFound :: nat where
  "StatusNotFound = 404"

definition WriteHeader :: "nat \<Rightarrow> ResponseWriter \<Rightarrow> ResponseWriter" where
  "WriteHeader code w = (case status w of None \<Rightarrow> w\<lparr>status := Some code\<rparr> | Some c \<Rightarrow> w)"

definition Write :: "string \<Rightarrow> ResponseWriter \<Rightarrow> ResponseWriter" where
  "Write data w =
     (let w' = (case status w of None \<Rightarrow> w\<lparr>status := Some StatusOK\<rparr> | Some c \<Rightarrow> w)
      in w'\<lparr>written := written w' @ data\<rparr>)"

text \<open>An \<^verbatim>\<open>http.Handler\<close> acts on what it is given to write to.\<close>

type_synonym 'w Handler = "'w \<Rightarrow> Request \<Rightarrow> 'w"

section \<open>The protocol multiplexer\<close>

text \<open>
  \<^verbatim>\<open>grpcHandlerFunc\<close> delegates to \<^verbatim>\<open>grpcServer\<close> on incoming gRPC requests and
  to \<^verbatim>\<open>otherHandler\<close> otherwise.
\<close>

definition grpcHandlerFunc :: "'w Handler \<Rightarrow> 'w Handler \<Rightarrow> 'w Handler" where
  "grpcHandlerFunc grpcServer otherHandler = (\<lambda>w r.
     if ProtoMajor r = 2 \<and>
        strings_Contains (Values_Get (Header r) ''Content-Type'') ''application/grpc''
     then grpcServer w r
     else otherHandler w r)"

text \<open>
  Two delegates that only note their own name, to observe which one a request reaches.
\<close>

datatype delegate = RpcDispatcher | FallbackHandler

definition routed :: "Request \<Rightarrow> delegate list" where
  "routed r =
     grpcHandlerFunc (\<lambda>w r. w @ [RpcDispatcher]) (\<lambda>w r. w @ [FallbackHandler]) [] r"

section \<open>The metrics server's handler\<close>

text \<open>
  The handler installed by \<^verbatim>\<open>ServeMetrics\<close>; \<^verbatim>\<open>promhttp.Handler()\<close> is the
  metrics-exposition handler of the Prometheus client library, taken as a parameter.
\<close>

definition metricsHandler :: "ResponseWriter Handler \<Rightarrow> ResponseWriter Handler" where
  "metricsHandler promhttp_Handler = (\<lambda>w r.
     if Path r = ''/healthz'' then WriteHeader StatusOK w
     else if Path r = ''/metrics'' then promhttp_Handler w r
     else WriteHeader StatusNotFound w)"

section \<open>The runtime configuration and the primary API server\<close>

text \<open>
  Modelled from the spec: the listener returned by \<^verbatim>\<open>net.Listen\<close>, a type of
  Go's standard library. A listener is open when it is created; closing it once marks it
  closed, closing it again reports the closed-listener error and does not panic, and an
  accept on a closed listener fails with the closed-listener error. \<^verbatim>\<open>tcp_bind\<close>
  says whether the operating system lets the address be bound; \<^verbatim>\<open>incoming\<close> is
  what an accept on the open listener yields.
\<close>

record Listener =
  laddr :: string
  closed :: bool

definition net_Listen :: "(string \<Rightarrow> error option) \<Rightarrow> string \<Rightarrow> error + Listener" where
  "net_Listen tcp_bind address =
     (case tcp_bind address of
        Some err \<Rightarrow> Inl err
      | None \<Rightarrow> Inr \<lparr>laddr = address, closed = False\<rparr>)"

definition Listener_Close :: "Listener \<Rightarrow> error option \<times> Listener" where
  "Listener_Close l =
     (if closed l then (Some ErrClosed, l) else (None, l\<lparr>closed := True\<rparr>))"

definition Listener_Accept :: "(error + 'conn) \<Rightarrow> Listener \<Rightarrow> error + 'conn" where
  "Listener_Accept incoming l = (if closed l then Inl ErrClosed else incoming)"

text \<open>The fields of an \<^verbatim>\<open>http.Server\<close> that the auxiliary servers set.\<close>

record HttpServer =
  Addr :: string
  ReadHeaderTimeout :: nat

text \<open>
  \<^verbatim>\<open>Config\<close>. The two handlers are pointers (\<open>None\<close> is nil) to values of the
  handler types \<open>'ch\<close> and \<open>'ah\<close> of the packages \<^verbatim>\<open>config\<close> and
  \<^verbatim>\<open>analyze\<close>. The \<^verbatim>\<open>Logger\<close> field is left out: logging is not modelled.
\<close>

record ('ch, 'ah) Config =
  Port :: string
  MetricsPort :: string
  AlertmanagerPort :: string
  Backend :: string
  Key :: string
  Token :: string
  Output :: string
  ConfigHandler :: "'ch option"
  AnalyzeHandler :: "'ah option"
  metricsServer :: "HttpServer option"
  alertmanagerServer :: "HttpServer option"
  listener :: "Listener option"
  EnableHttp :: bool

text \<open>
  How a call ends: it returns, it ends the process (\<^verbatim>\<open>log.Fatalln\<close> prints its
  operands and exits), or it panics.
\<close>

datatype 'a outcome = Returns 'a | Fatal string | Panics

text \<open>\<^verbatim>\<open>Shutdown\<close>: closes the owned listener; a nil listener is dereferenced.\<close>

definition Shutdown :: "('ch, 'ah) Config \<Rightarrow> ('ch, 'ah) Config \<times> error option outcome" where
  "Shutdown s =
     (case listener s of
        None \<Rightarrow> (s, Panics)
      | Some lis \<Rightarrow>
          (case Listener_Close lis of
             (err, lis') \<Rightarrow> (s\<lparr>listener := Some lis'\<rparr>, Returns err)))"

text \<open>
  What \<^verbatim>\<open>Serve\<close> calls outside this file, as parameters: whether the port can be
  bound, the two REST gateway registrations (by endpoint), and the two blocking serving
  calls with the error they end with.
\<close>

record Env =
  tcp_bind :: "string \<Rightarrow> error option"
  RegisterConfigGateway :: "string \<Rightarrow> error option"
  RegisterAnalyzerGateway :: "string \<Rightarrow> error option"
  srv_Serve :: "Listener \<Rightarrow> error option"
  grpcServer_Serve :: "Listener \<Rightarrow> error option"

text \<open>The calls \<^verbatim>\<open>Serve\<close> makes, with what each returned, in order.\<close>

datatype call =
    Listen_call string "error option"
  | RegisterConfigGateway_call string "error option"
  | RegisterAnalyzerGateway_call string "error option"
  | srv_Serve_call "error option"
  | grpcServer_Serve_call "error option"

definition Fatalln :: "error \<Rightarrow> string" where
  "Fatalln err = ''Failed to register gateway: '' @ Error err @ [CHR 0x0A]"

text \<open>
  Lines 97 to 107 of \<^verbatim>\<open>Serve\<close>: bind the listener and, when that succeeds,
  install two fresh handlers and the listener in the \<^verbatim>\<open>Config\<close>.
  \<open>new_config_Handler\<close> and \<open>new_analyze_Handler\<close> stand for
  \<^verbatim>\<open>&config.Handler{}\<close> and \<^verbatim>\<open>&analyze.Handler{}\<close>.
\<close>

definition Serve_bind ::
  "Env \<Rightarrow> 'ch \<Rightarrow> 'ah \<Rightarrow> ('ch, 'ah) Config \<Rightarrow> error + ('ch, 'ah) Config \<times> Listener" where
  "Serve_bind env new_config_Handler new_analyze_Handler s =
     (let address = '':'' @ Port s in
      case net_Listen (tcp_bind env) address of
        Inl err \<Rightarrow> Inl err
      | Inr lis \<Rightarrow>
          Inr (s\<lparr>ConfigHandler := Some new_config_Handler,
                 AnalyzeHandler := Some new_analyze_Handler,
                 listener := Some lis\<rparr>, lis))"

text \<open>Lines 115 to 145 of \<^verbatim>\<open>Serve\<close>: the REST gateway and the serving call.\<close>

definition Serve_run ::
  "Env \<Rightarrow> ('ch, 'ah) Config \<Rightarrow> Listener \<Rightarrow> call list \<times> error option outcome" where
  "Serve_run env s lis =
     (if EnableHttp s then
        (let endpoint = ''localhost:'' @ Port s;
             err1 = RegisterConfigGateway env endpoint in
         case err1 of
           Some err \<Rightarrow> ([RegisterConfigGateway_call endpoint err1], Fatal (Fatalln err))
         | None \<Rightarrow>
             (let err2 = RegisterAnalyzerGateway env endpoint in
              case err2 of
                Some err \<Rightarrow>
                  ([RegisterConfigGateway_call endpoint err1,
                    RegisterAnalyzerGateway_call endpoint err2], Fatal (Fatalln err))
              | None \<Rightarrow>
                  (let err3 = srv_Serve env lis;
                       calls = [RegisterConfigGateway_call endpoint err1,
                                RegisterAnalyzerGateway_call endpoint err2,
                                srv_Serve_call err3] in
                   case err3 of
                     Some err \<Rightarrow> (calls, Returns (Some err))
                   | None \<Rightarrow> (calls, Returns None))))
      else
        (let err3 = grpcServer_Serve env lis in
         case err3 of
           Some err \<Rightarrow>
             if \<not> errors_Is err ErrServerClosed
             then ([grpcServer_Serve_call err3], Returns (Some err))
             else ([grpcServer_Serve_call err3], Returns None)
         | None \<Rightarrow> ([grpcServer_Serve_call err3], Returns None)))"

text \<open>
  \<^verbatim>\<open>Serve\<close>. The result is the \<^verbatim>\<open>Config\<close> with the fields as
  \<^verbatim>\<open>Serve\<close> wrote them, the calls made, and how \<^verbatim>\<open>Serve\<close> ended.
\<close>

definition Serve ::
  "Env \<Rightarrow> 'ch \<Rightarrow> 'ah \<Rightarrow> ('ch, 'ah) Config \<Rightarrow>
     ('ch, 'ah) Config \<times> call list \<times> error option outcome" where
  "Serve env new_config_Handler new_analyze_Handler s =
     (let address = '':'' @ Port s in
      case Serve_bind env new_config_Handler new_analyze_Handler s of
        Inl err \<Rightarrow> (s, [Listen_call address (Some err)], Returns (Some err))
      | Inr (s1, lis) \<Rightarrow>
          (case Serve_run env s1 lis of
             (calls, out) \<Rightarrow> (s1, Listen_call address None # calls, out)))"

text \<open>
  \<^verbatim>\<open>ServeMetrics\<close> and \<^verbatim>\<open>ServeAlerts\<close> around their handlers:
  \<^verbatim>\<open>ListenAndServe\<close> is a parameter, the error it ends with.
\<close>

definition ServeMetrics ::
  "(HttpServer \<Rightarrow> error option) \<Rightarrow> ('ch, 'ah) Config \<Rightarrow> ('ch, 'ah) Config \<times> error option" where
  "ServeMetrics ListenAndServe s =
     (let srv = \<lparr>Addr = '':'' @ MetricsPort s, ReadHeaderTimeout = 3\<rparr>;
          s1 = s\<lparr>metricsServer := Some srv\<rparr> in
      case ListenAndServe srv of
        Some err \<Rightarrow> if \<not> errors_Is err ErrServerClosed then (s1, Some err) else (s1, None)
      | None \<Rightarrow> (s1, None))"

definition ServeAlerts ::
  "(HttpServer \<Rightarrow> error option) \<Rightarrow> ('ch, 'ah) Config \<Rightarrow> ('ch, 'ah) Config \<times> error option" where
  "ServeAlerts ListenAndServe s =
     (let srv = \<lparr>Addr = '':'' @ AlertmanagerPort s, ReadHeaderTimeout = 0\<rparr>;
          s1 = s\<lparr>alertmanagerServer := Some srv\<rparr> in
      case ListenAndServe srv of
        Some err \<Rightarrow> if \<not> errors_Is err ErrServerClosed then (s1, Some err) else (s1, None)
      | None \<Rightarrow> (s1, None))"

section \<open>The alert webhook adapter\<close>

text \<open>
  Modelled from the spec: the message types of the schema package and the alert type of
  the Alertmanager API, none of which is declared in this file. An \<^verbatim>\<open>AnalyzeRequest\<close>
  has a backend, a language, a namespace, filter names and the two flags; an
  \<^verbatim>\<open>AnalyzeResponse\<close> is a sequence of results, each with a details string; an alert
  has a label mapping and an annotation mapping. Both mappings are Go maps. A nil label
  map reads like an empty one, so \<^verbatim>\<open>Labels\<close> is a plain mapping; storing into a nil
  map panics, so \<^verbatim>\<open>Annotations\<close> is \<open>None\<close> for the nil map that decoding leaves
  when the alert has no \<^verbatim>\<open>annotations\<close> member. A decoded batch is a slice of
  pointers: its elements are \<open>None\<close> for the nil pointer that a \<^verbatim>\<open>null\<close> element
  decodes to.
\<close>

record AnalyzeRequest =
  Backend :: string
  Language :: string
  Namespace :: string
  Filters :: "string list"
  Nocache :: bool
  Explain :: bool

record Result =
  Details :: string

record AnalyzeResponse =
  Results :: "Result list"

record PostableAlert =
  Labels :: "string \<rightharpoonup> string"
  Annotations :: "(string \<rightharpoonup> string) option"

type_synonym PostableAlerts = "PostableAlert option list"

text \<open>
  \<^verbatim>\<open>s.AnalyzeHandler.Analyze\<close>, a method of the package \<^verbatim>\<open>analyze\<close>, as a
  parameter: given the receiver (the pointer held by the \<^verbatim>\<open>Config\<close>), the request and
  the state \<open>'st\<close> of whatever the analysis depends on, it yields an error or a response
  (never both, and a response without nil results), and the state afterwards.
\<close>

type_synonym ('ah, 'st) AnalyzeMethod =
  "'ah option \<Rightarrow> AnalyzeRequest \<Rightarrow> 'st \<Rightarrow> (error + AnalyzeResponse) \<times> 'st"

text \<open>
  What a run of the handler has done so far: the one \<^verbatim>\<open>analyzeRequest\<close> it works
  on, the response writer, the analysis calls made (receiver and request as passed, oldest
  first), and the state the analysis depends on.
\<close>

record ('ah, 'st) Run =
  analyzeRequest :: AnalyzeRequest
  response :: ResponseWriter
  analyze_calls :: "('ah option \<times> AnalyzeRequest) list"
  world :: 'st

text \<open>
  How a run of the handler ends: it reaches the end of the handler, it returns early, or
  it panics.
\<close>

datatype ending = Finished | Returned | Panicked

text \<open>Line 202 to 204: the namespace label, when present, goes into the request.\<close>

definition setNamespace :: "PostableAlert \<Rightarrow> AnalyzeRequest \<Rightarrow> AnalyzeRequest" where
  "setNamespace alert rq =
     (case Labels alert ''namespace'' of
        Some namespace \<Rightarrow> rq\<lparr>Namespace := namespace\<rparr>
      | None \<Rightarrow> rq)"

text \<open>
  Line 209 to 211: every result's details are stored under the annotation key. The store
  into a nil annotation map panics (\<open>None\<close>); with no result nothing is stored.
\<close>

primrec annotate :: "string \<Rightarrow> Result list \<Rightarrow> PostableAlert \<Rightarrow> PostableAlert option" where
  "annotate annotation [] alert = Some alert"
| "annotate annotation (result # results) alert =
     (case Annotations alert of
        None \<Rightarrow> None
      | Some m \<Rightarrow>
          annotate annotation results
            (alert\<lparr>Annotations := Some (m(annotation \<mapsto> Details result))\<rparr>))"

text \<open>
  The loop over the alerts, line 201 to 213. The result is the alerts as the loop leaves
  them, the run, and how the loop ended. Reading the labels of a nil alert panics at line
  202, before any call for it; a failed analysis writes the error and returns; a store
  into a nil annotation map panics at line 210, after the call.
\<close>

fun analyzeAlerts ::
  "('ah, 'st) AnalyzeMethod \<Rightarrow> ('ch, 'ah) Config \<Rightarrow> string \<Rightarrow> PostableAlerts \<Rightarrow>
     ('ah, 'st) Run \<Rightarrow> PostableAlerts \<times> ('ah, 'st) Run \<times> ending" where
  "analyzeAlerts Analyze s annotation [] run = ([], run, Finished)"
| "analyzeAlerts Analyze s annotation (None # rest) run = (None # rest, run, Panicked)"
| "analyzeAlerts Analyze s annotation (Some alert # rest) run =
     (let rq = setNamespace alert (analyzeRequest run);
          run1 = run\<lparr>analyzeRequest := rq,
                     analyze_calls := analyze_calls run @ [(AnalyzeHandler s, rq)]\<rparr> in
      case Analyze (AnalyzeHandler s) rq (world run) of
        (Inl err, st) \<Rightarrow>
          (Some alert # rest,
           run1\<lparr>response := Write (''analyze. err: '' @ Error err) (response run1),
                 world := st\<rparr>,
           Returned)
      | (Inr resp, st) \<Rightarrow>
          (case annotate annotation (Results resp) alert of
             None \<Rightarrow> (Some alert # rest, run1\<lparr>world := st\<rparr>, Panicked)
           | Some alert' \<Rightarrow>
               (case analyzeAlerts Analyze s annotation rest (run1\<lparr>world := st\<rparr>) of
                  (rest', run', e) \<Rightarrow> (Some alert' # rest', run', e))))"

text \<open>
  Line 176 to 186: the request prepared from the URL parameters, before anything is
  decoded or analysed. The namespace is not set.
\<close>

definition newRequest :: "Request \<Rightarrow> AnalyzeRequest" where
  "newRequest r =
     (let params = Query r in
      \<lparr>Backend = Values_Get params ''backend'',
       Language = Values_Get params ''language'',
       Namespace = [],
       Filters = Values_index params ''filters'',
       Nocache = True,
       Explain = True\<rparr>)"

definition newRun :: "Request \<Rightarrow> ResponseWriter \<Rightarrow> 'st \<Rightarrow> ('ah, 'st) Run" where
  "newRun r w st =
     \<lparr>analyzeRequest = newRequest r, response = w, analyze_calls = [], world = st\<rparr>"

text \<open>
  The handler installed by \<^verbatim>\<open>ServeAlerts\<close>, line 174 to 216.
  \<^verbatim>\<open>json_Decode\<close> stands for decoding the body with \<^verbatim>\<open>encoding/json\<close> and is a
  parameter. The result is the alerts as the handler leaves them (none when the body did
  not decode), the run, and how the handler ended.
\<close>

definition alertsHandler ::
  "('ah, 'st) AnalyzeMethod \<Rightarrow> (string \<Rightarrow> error + PostableAlerts) \<Rightarrow> ('ch, 'ah) Config \<Rightarrow>
     ResponseWriter \<Rightarrow> Request \<Rightarrow> 'st \<Rightarrow> PostableAlerts \<times> ('ah, 'st) Run \<times> ending" where
  "alertsHandler Analyze json_Decode s w r st =
     (let run = newRun r w st in
      case json_Decode (Body r) of
        Inl err \<Rightarrow>
          ([], run\<lparr>response := Write (''decode alerts. err: '' @ Error err) (response run)\<rparr>,
           Returned)
      | Inr alerts \<Rightarrow>
          (let annotation = Values_Get (Query r) ''annotation'' in
           analyzeAlerts Analyze s annotation alerts run))"

section \<open>What the analysis service is asked and answers\<close>

text \<open>
  The requests a batch gives rise to when its alerts are taken strictly in order, each
  request being the one before it with the alert's namespace label, when present, put in.
\<close>

fun requests_in_order :: "AnalyzeRequest \<Rightarrow> PostableAlert list \<Rightarrow> AnalyzeRequest list" where
  "requests_in_order rq [] = []"
| "requests_in_order rq (alert # rest) =
     setNamespace alert rq # requests_in_order (setNamespace alert rq) rest"

text \<open>
  The analysis service called with a sequence of requests, one after the other: its
  answers and its state afterwards. This is about the service alone, not the handler.
\<close>

fun analyses ::
  "('ah, 'st) AnalyzeMethod \<Rightarrow> 'ah option \<Rightarrow> AnalyzeRequest list \<Rightarrow> 'st \<Rightarrow>
     (error + AnalyzeResponse) list \<times> 'st" where
  "analyses Analyze h [] st = ([], st)"
| "analyses Analyze h (rq # rqs) st =
     (case Analyze h rq st of
        (answer, st1) \<Rightarrow>
          (case analyses Analyze h rqs st1 of
             (answers, st2) \<Rightarrow> (answer # answers, st2)))"

section \<open>Example inputs\<close>

text \<open>
  A configuration that was given both handlers (numbers stand for handler values; 0 will
  stand for a fresh one), REST mode on, and on which \<^verbatim>\<open>Serve\<close> has not run.
\<close>

definition supplied_config :: "(nat, nat) Config" where
  "supplied_config =
     \<lparr>Port = ''8080'', MetricsPort = ''8081'', AlertmanagerPort = ''8082'',
      Backend = ''openai'', Key = [], Token = [], Output = ''json'',
      ConfigHandler = Some 1, AnalyzeHandler = Some 2,
      metricsServer = None, alertmanagerServer = None, listener = None,
      EnableHttp = True\<rparr>"

text \<open>
  The error that a serving call ends with once \<^verbatim>\<open>Shutdown\<close> has closed the listener
  it accepts on: the accept fails, and the error of the failed accept, which wraps
  \<^verbatim>\<open>net.ErrClosed\<close>, is what the serving call returns.
\<close>

definition accept_on_closed :: error where
  "accept_on_closed =
     Wrapped ''accept tcp [::]:8080: use of closed network connection'' ErrClosed"

text \<open>
  Three environments: one where everything succeeds and serving ends because
  \<^verbatim>\<open>Shutdown\<close> closed the listener, one where the port cannot be bound, and one where
  the second gateway registration fails.
\<close>

definition env_closed :: Env where
  "env_closed =
     \<lparr>tcp_bind = (\<lambda>address. None),
      RegisterConfigGateway = (\<lambda>endpoint. None),
      RegisterAnalyzerGateway = (\<lambda>endpoint. None),
      srv_Serve = (\<lambda>lis. Some accept_on_closed),
      grpcServer_Serve = (\<lambda>lis. Some accept_on_closed)\<rparr>"

definition env_port_in_use :: Env where
  "env_port_in_use =
     \<lparr>tcp_bind = (\<lambda>address. Some (ErrorString ''bind: address already in use'')),
      RegisterConfigGateway = (\<lambda>endpoint. None),
      RegisterAnalyzerGateway = (\<lambda>endpoint. None),
      srv_Serve = (\<lambda>lis. Some accept_on_closed),
      grpcServer_Serve = (\<lambda>lis. Some accept_on_closed)\<rparr>"

definition env_gateway_fails :: Env where
  "env_gateway_fails =
     \<lparr>tcp_bind = (\<lambda>address. None),
      RegisterConfigGateway = (\<lambda>endpoint. None),
      RegisterAnalyzerGateway = (\<lambda>endpoint. Some (ErrorString ''dial failed'')),
      srv_Serve = (\<lambda>lis. Some accept_on_closed),
      grpcServer_Serve = (\<lambda>lis. Some accept_on_closed)\<rparr>"

text \<open>
  A webhook call with \<^verbatim>\<open>?backend=openai&annotation=summary\<close>; three alerts with an
  empty \<^verbatim>\<open>annotations\<close> object and one alert without that member; the ways the body
  may decode; and three analysis services: one that always answers with the single result
  \<^verbatim>\<open>pod crashlooping\<close>, one that does so on its first two calls and fails from
  then on (its state counts the calls), and one that already fails on its second call.
\<close>

definition webhook_request :: Request where
  "webhook_request =
     \<lparr>ProtoMajor = 1,
      Header = [''Content-Type'' \<mapsto> [''application/json'']],
      Path = ''/'',
      Query = [''backend'' \<mapsto> [''openai''], ''annotation'' \<mapsto> [''summary'']],
      Body = ''alerts''\<rparr>"

definition alert_prod :: PostableAlert where
  "alert_prod = \<lparr>Labels = [''namespace'' \<mapsto> ''prod''], Annotations = Some Map.empty\<rparr>"

definition alert_ns1 :: PostableAlert where
  "alert_ns1 = \<lparr>Labels = [''namespace'' \<mapsto> ''ns1''], Annotations = Some Map.empty\<rparr>"

definition alert_unlabelled :: PostableAlert where
  "alert_unlabelled =
     \<lparr>Labels = [''alertname'' \<mapsto> ''NodeDown''], Annotations = Some Map.empty\<rparr>"

definition alert_no_annotations :: PostableAlert where
  "alert_no_annotations = \<lparr>Labels = [''namespace'' \<mapsto> ''prod''], Annotations = None\<rparr>"

definition decode_fails :: "string \<Rightarrow> error + PostableAlerts" where
  "decode_fails body = Inl (ErrorString ''unexpected end of JSON input'')"

definition decode_prod :: "string \<Rightarrow> error + PostableAlerts" where
  "decode_prod body = Inr [Some alert_prod]"

definition decode_ns1_unlabelled :: "string \<Rightarrow> error + PostableAlerts" where
  "decode_ns1_unlabelled body = Inr [Some alert_ns1, Some alert_unlabelled]"


definition decode_no_annotations :: "string \<Rightarrow> error + PostableAlerts" where
  "decode_no_annotations body = Inr [Some alert_no_annotations]"

definition decode_null :: "string \<Rightarrow> error + PostableAlerts" where
  "decode_null body = Inr [None]"

definition crashloop :: AnalyzeResponse where
  "crashloop = \<lparr>Results = [\<lparr>Details = ''pod crashlooping''\<rparr>]\<rparr>"

definition Analyze_crashloop :: "(nat, unit) AnalyzeMethod" where
  "Analyze_crashloop h rq st = (Inr crashloop, st)"



section \<open>Properties of the string functions\<close>

lemma strings_HasPrefix_iff: "strings_HasPrefix s sub \<longleftrightarrow> (\<exists>ss. s = sub @ ss)"
  by (induction s sub rule: strings_HasPrefix.induct) auto

lemma strings_Contains_iff: "strings_Contains s sub \<longleftrightarrow> (\<exists>ps ss. s = ps @ sub @ ss)"
proof (induction s)
  case Nil
  show ?case by auto
next
  case (Cons c s)
  show ?case
  proof
    assume "strings_Contains (c # s) sub"
    then consider "strings_HasPrefix (c # s) sub" | "strings_Contains s sub" by auto
    then show "\<exists>ps ss. c # s = ps @ sub @ ss"
    proof cases
      case 1
      then obtain ss where "c # s = sub @ ss" by (auto simp: strings_HasPrefix_iff)
      then have "c # s = [] @ sub @ ss" by simp
      then show ?thesis by blast
    next
      case 2
      with Cons obtain ps ss where "s = ps @ sub @ ss" by auto
      then have "c # s = (c # ps) @ sub @ ss" by simp
      then show ?thesis by blast
    qed
  next
    assume "\<exists>ps ss. c # s = ps @ sub @ ss"
    then obtain ps ss where eq: "c # s = ps @ sub @ ss" by auto
    show "strings_Contains (c # s) sub"
    proof (cases ps)
      case Nil
      with eq have "strings_HasPrefix (c # s) sub"
        by (auto simp: strings_HasPrefix_iff)
      then show ?thesis by simp
    next
      case (Cons p ps')
      with eq have "s = ps' @ sub @ ss" by simp
      with Cons.IH have "strings_Contains s sub" by auto
      then show ?thesis by simp
    qed
  qed
qed

section \<open>Routing of the protocol multiplexer\<close>

text \<open>
  C1. A request reaches the RPC dispatcher exactly when its protocol major version is 2
  and the first value of its Content-Type header has \<^verbatim>\<open>application/grpc\<close> as a
  substring; every other request reaches the fallback handler. Whatever the two delegates
  are, the multiplexer does what the chosen one does, and two requests with the same
  protocol major version and the same Content-Type value are routed alike.
\<close>

theorem grpcHandlerFunc_routing:
  "(routed r = [RpcDispatcher] \<longleftrightarrow>
      ProtoMajor r = 2 \<and>
      (\<exists>ps ss. Values_Get (Header r) ''Content-Type'' = ps @ ''application/grpc'' @ ss))
   \<and> (routed r \<noteq> [RpcDispatcher] \<longrightarrow> routed r = [FallbackHandler])
   \<and> (routed r = [RpcDispatcher] \<longrightarrow> grpcHandlerFunc g h w r = g w r)
   \<and> (routed r = [FallbackHandler] \<longrightarrow> grpcHandlerFunc g h w r = h w r)
   \<and> (ProtoMajor r = ProtoMajor r' \<and>
        Values_Get (Header r) ''Content-Type'' = Values_Get (Header r') ''Content-Type''
        \<longrightarrow> routed r = routed r')"
  unfolding routed_def grpcHandlerFunc_def strings_Contains_iff by auto

theorem grpcHandlerFunc_routing_witness:
  "routed \<lparr>ProtoMajor = 2, Header = [''Content-Type'' \<mapsto> [''application/grpc+proto'']],
            Path = ''/'', Query = Map.empty, Body = []\<rparr> = [RpcDispatcher]
   \<and> grpcHandlerFunc (\<lambda>w r. w @ ''g'') (\<lambda>w r. w @ ''h'') ''x''
        \<lparr>ProtoMajor = 2, Header = [''Content-Type'' \<mapsto> [''application/grpc+proto'']],
         Path = ''/'', Query = Map.empty, Body = []\<rparr> = ''xg''
   \<and> routed \<lparr>ProtoMajor = 1, Header = [''Content-Type'' \<mapsto> [''application/grpc+proto'']],
            Path = ''/'', Query = Map.empty, Body = []\<rparr> = [FallbackHandler]
   \<and> grpcHandlerFunc (\<lambda>w r. w @ ''g'') (\<lambda>w r. w @ ''h'') ''x''
        \<lparr>ProtoMajor = 1, Header = [''Content-Type'' \<mapsto> [''application/grpc+proto'']],
         Path = ''/'', Query = Map.empty, Body = []\<rparr> = ''xh''
   \<and> routed \<lparr>ProtoMajor = 2, Header = [''Content-Type'' \<mapsto> [''application/grpc+proto'']],
            Path = ''/'', Query = Map.empty, Body = []\<rparr>
     = routed \<lparr>ProtoMajor = 2, Header = [''Content-Type'' \<mapsto> [''application/grpc+proto''],
                                         ''Te'' \<mapsto> [''trailers'']],
            Path = ''/a'', Query = Map.empty, Body = ''b''\<rparr>"
proof -
  let ?r2 = "\<lparr>ProtoMajor = 2, Header = [''Content-Type'' \<mapsto> [''application/grpc+proto'']],
            Path = ''/'', Query = Map.empty, Body = []\<rparr>"
  let ?r1 = "\<lparr>ProtoMajor = 1, Header = [''Content-Type'' \<mapsto> [''application/grpc+proto'']],
            Path = ''/'', Query = Map.empty, Body = []\<rparr>"
  let ?r3 = "\<lparr>ProtoMajor = 2, Header = [''Content-Type'' \<mapsto> [''application/grpc+proto''],
                                         ''Te'' \<mapsto> [''trailers'']],
            Path = ''/a'', Query = Map.empty, Body = ''b''\<rparr>"
  let ?g = "\<lambda>(w::string) (r::Request). w @ ''g''"
  let ?h = "\<lambda>(w::string) (r::Request). w @ ''h''"
  have pm: "ProtoMajor ?r2 = 2" by simp
  have ct: "\<exists>ps ss. Values_Get (Header ?r2) ''Content-Type'' = ps @ ''application/grpc'' @ ss"
    by (rule exI [of _ "[]"], rule exI [of _ "''+proto''"]) (simp add: Values_Get_def)
  have a: "routed ?r2 = [RpcDispatcher]"
    by (rule iffD2 [OF conjunct1 [OF grpcHandlerFunc_routing [of ?r2 ?g ?h "''x''" ?r3]]])
      (rule conjI [OF pm ct])
  have b: "grpcHandlerFunc ?g ?h ''x'' ?r2 = ''xg''"
    using grpcHandlerFunc_routing [of ?r2 ?g ?h "''x''" ?r3] a by simp
  have c: "routed ?r1 = [FallbackHandler]"
    using grpcHandlerFunc_routing [of ?r1 ?g ?h "''x''" ?r1] by simp
  have d: "grpcHandlerFunc ?g ?h ''x'' ?r1 = ''xh''"
    using grpcHandlerFunc_routing [of ?r1 ?g ?h "''x''" ?r1] c by simp
  have e: "routed ?r2 = routed ?r3"
    using grpcHandlerFunc_routing [of ?r2 ?g ?h "''x''" ?r3] by (simp add: Values_Get_def)
  from a b c d e show ?thesis by simp
qed

section \<open>Routing of the metrics server\<close>

text \<open>
  C7. On a fresh response writer, a request for \<^verbatim>\<open>/healthz\<close> gets status 200 and an
  empty body, whatever else is the case (the handler reads nothing but the path); a
  request for \<^verbatim>\<open>/metrics\<close> is handed to the metrics-exposition handler, whose answer
  is the answer; a request for any other path gets status 404 (and an empty body).
\<close>

theorem metricsHandler_routes:
  "(Path r = ''/healthz'' \<longrightarrow>
      metricsHandler promhttp_Handler new_ResponseWriter r = \<lparr>status = Some 200, written = []\<rparr>)
   \<and> (Path r = ''/metrics'' \<longrightarrow>
      metricsHandler promhttp_Handler w r = promhttp_Handler w r)
   \<and> (Path r \<noteq> ''/healthz'' \<and> Path r \<noteq> ''/metrics'' \<longrightarrow>
      metricsHandler promhttp_Handler new_ResponseWriter r = \<lparr>status = Some 404, written = []\<rparr>)"
  by (simp add: metricsHandler_def WriteHeader_def new_ResponseWriter_def StatusOK_def
      StatusNotFound_def)

theorem metricsHandler_routes_witness:
  "metricsHandler (\<lambda>w r. Write ''# HELP'' w) new_ResponseWriter
     \<lparr>ProtoMajor = 1, Header = Map.empty, Path = ''/healthz'', Query = Map.empty, Body = []\<rparr>
     = \<lparr>status = Some 200, written = []\<rparr>
   \<and> metricsHandler (\<lambda>w r. Write ''# HELP'' w) new_ResponseWriter
     \<lparr>ProtoMajor = 1, Header = Map.empty, Path = ''/metrics'', Query = Map.empty, Body = []\<rparr>
     = \<lparr>status = Some 200, written = ''# HELP''\<rparr>
   \<and> metricsHandler (\<lambda>w r. Write ''# HELP'' w) new_ResponseWriter
     \<lparr>ProtoMajor = 1, Header = Map.empty, Path = ''/unknown'', Query = Map.empty, Body = []\<rparr>
     = \<lparr>status = Some 404, written = []\<rparr>"
proof -
  let ?p = "\<lambda>(w::ResponseWriter) (r::Request). Write ''# HELP'' w"
  let ?h = "\<lparr>ProtoMajor = 1, Header = Map.empty, Path = ''/healthz'', Query = Map.empty, Body = []\<rparr>"
  let ?m = "\<lparr>ProtoMajor = 1, Header = Map.empty, Path = ''/metrics'', Query = Map.empty, Body = []\<rparr>"
  let ?u = "\<lparr>ProtoMajor = 1, Header = Map.empty, Path = ''/unknown'', Query = Map.empty, Body = []\<rparr>"
  have a: "metricsHandler ?p new_ResponseWriter ?h = \<lparr>status = Some 200, written = []\<rparr>"
    using metricsHandler_routes [of ?h ?p new_ResponseWriter] by simp
  have b: "metricsHandler ?p new_ResponseWriter ?m = \<lparr>status = Some 200, written = ''# HELP''\<rparr>"
    using metricsHandler_routes [of ?m ?p new_ResponseWriter]
    by (simp add: Write_def new_ResponseWriter_def StatusOK_def)
  have c: "metricsHandler ?p new_ResponseWriter ?u = \<lparr>status = Some 404, written = []\<rparr>"
    using metricsHandler_routes [of ?u ?p new_ResponseWriter] by simp
  from a b c show ?thesis by simp
qed

section \<open>The primary API server\<close>

lemmas Serve_defs = Serve_def Serve_bind_def Serve_run_def net_Listen_def Let_def

text \<open>
  What \<^verbatim>\<open>Serve\<close> returns once the listener is bound. With REST mode off, an error
  of the serving call is returned unless it is (or wraps) \<^verbatim>\<open>http.ErrServerClosed\<close>,
  in which case \<^verbatim>\<open>Serve\<close> returns nil. With REST mode on and both registrations
  successful, \<^verbatim>\<open>Serve\<close> returns whatever the serving call returned.
\<close>

lemma Serve_serving_errors:
  assumes "tcp_bind env ('':'' @ Port s) = None"
  shows "\<not> EnableHttp s \<Longrightarrow> grpcServer_Serve env \<lparr>laddr = '':'' @ Port s, closed = False\<rparr> = Some err \<Longrightarrow>
           snd (snd (Serve env nc na s)) = Returns (if errors_Is err ErrServerClosed then None else Some err)"
    and "EnableHttp s \<Longrightarrow> RegisterConfigGateway env (''localhost:'' @ Port s) = None \<Longrightarrow>
           RegisterAnalyzerGateway env (''localhost:'' @ Port s) = None \<Longrightarrow>
           snd (snd (Serve env nc na s)) = Returns (srv_Serve env \<lparr>laddr = '':'' @ Port s, closed = False\<rparr>)"
  using assms by (auto simp: Serve_defs Let_def split: option.splits)

text \<open>
  C3. The claim is that the error which serving ends with after an intentional
  \<^verbatim>\<open>Shutdown\<close> is suppressed and \<^verbatim>\<open>Serve\<close> returns nil, in both modes.
  \<^verbatim>\<open>Shutdown\<close> closes the listener, so serving ends with the error of the failed
  accept, which wraps \<^verbatim>\<open>net.ErrClosed\<close> and is not \<^verbatim>\<open>http.ErrServerClosed\<close>. The
  branch without REST filters \<^verbatim>\<open>http.ErrServerClosed\<close> only and the REST branch
  filters nothing: in both modes \<^verbatim>\<open>Serve\<close> returns the error.
\<close>

theorem Serve_after_Shutdown_returns_error:
  "errors_Is accept_on_closed ErrClosed
   \<and> \<not> errors_Is accept_on_closed ErrServerClosed
   \<and> snd (snd (Serve env_closed (0::nat) (0::nat) supplied_config))
       = Returns (Some accept_on_closed)
   \<and> snd (snd (Serve env_closed (0::nat) (0::nat) (supplied_config\<lparr>EnableHttp := False\<rparr>)))
       = Returns (Some accept_on_closed)"
  by (simp add: Serve_defs env_closed_def supplied_config_def accept_on_closed_def)

text \<open>
  C8. When a REST gateway registration call of \<^verbatim>\<open>Serve\<close> fails, \<^verbatim>\<open>Serve\<close>
  does not return: the process ends in \<^verbatim>\<open>log.Fatalln\<close> with that error. So with
  REST mode on and the listener bound, a failure of either registration is fatal.
\<close>

theorem Serve_registration_failure_fatal:
  "(Serve env nc na s = (s', calls, out) \<and>
      (RegisterConfigGateway_call endpoint (Some err) \<in> set calls \<or>
       RegisterAnalyzerGateway_call endpoint (Some err) \<in> set calls)
      \<longrightarrow> out = Fatal (Fatalln err))
   \<and> (EnableHttp s \<and> tcp_bind env ('':'' @ Port s) = None \<and>
      (RegisterConfigGateway env (''localhost:'' @ Port s) \<noteq> None \<or>
       RegisterAnalyzerGateway env (''localhost:'' @ Port s) \<noteq> None)
      \<longrightarrow> (\<exists>e. snd (snd (Serve env nc na s)) = Fatal (Fatalln e)))"
  by (auto simp: Serve_defs Let_def split: option.splits if_splits)

theorem Serve_registration_failure_fatal_witness:
  "Serve env_gateway_fails (0::nat) (0::nat) supplied_config =
     (supplied_config\<lparr>ConfigHandler := Some 0, AnalyzeHandler := Some 0,
        listener := Some \<lparr>laddr = '':8080'', closed = False\<rparr>\<rparr>,
      [Listen_call '':8080'' None,
       RegisterConfigGateway_call ''localhost:8080'' None,
       RegisterAnalyzerGateway_call ''localhost:8080'' (Some (ErrorString ''dial failed''))],
      Fatal (Fatalln (ErrorString ''dial failed'')))
   \<and> EnableHttp supplied_config
   \<and> tcp_bind env_gateway_fails ('':'' @ Port supplied_config) = None
   \<and> RegisterAnalyzerGateway env_gateway_fails (''localhost:'' @ Port supplied_config) \<noteq> None
   \<and> (\<exists>e. snd (snd (Serve env_gateway_fails (0::nat) (0::nat) supplied_config)) = Fatal (Fatalln e))"
proof -
  have run: "Serve env_gateway_fails (0::nat) (0::nat) supplied_config =
     (supplied_config\<lparr>ConfigHandler := Some 0, AnalyzeHandler := Some 0,
        listener := Some \<lparr>laddr = '':8080'', closed = False\<rparr>\<rparr>,
      [Listen_call '':8080'' None,
       RegisterConfigGateway_call ''localhost:8080'' None,
       RegisterAnalyzerGateway_call ''localhost:8080'' (Some (ErrorString ''dial failed''))],
      Fatal (Fatalln (ErrorString ''dial failed'')))"
    by (simp add: Serve_defs env_gateway_fails_def supplied_config_def)
  have h1: "EnableHttp supplied_config" by (simp add: supplied_config_def)
  have h2: "tcp_bind env_gateway_fails ('':'' @ Port supplied_config) = None"
    by (simp add: env_gateway_fails_def)
  have h3: "RegisterAnalyzerGateway env_gateway_fails (''localhost:'' @ Port supplied_config) \<noteq> None"
    by (simp add: env_gateway_fails_def)
  have "\<exists>e. snd (snd (Serve env_gateway_fails (0::nat) (0::nat) supplied_config)) = Fatal (Fatalln e)"
    using Serve_registration_failure_fatal
      [of env_gateway_fails 0 0 supplied_config _ _ _ "''localhost:8080''" "ErrorString ''dial failed''"]
      h1 h2 h3 by blast
  with run h1 h2 h3 show ?thesis by blast
qed

text \<open>
  C9. On a configuration whose listener \<^verbatim>\<open>Serve\<close> has bound, \<^verbatim>\<open>Shutdown\<close>
  returns nil and leaves the owned listener closed, so that an accept on it fails with the
  closed-listener error; a second \<^verbatim>\<open>Shutdown\<close> returns that error and does not
  panic.
\<close>

theorem Shutdown_closes_listener:
  assumes "Serve_bind env nc na s = Inr (s1, lis)"
  shows "\<exists>s2 l. Shutdown s1 = (s2, Returns None)
           \<and> listener s2 = Some l \<and> closed l
           \<and> Listener_Accept incoming l = Inl ErrClosed
           \<and> Shutdown s2 = (s2, Returns (Some ErrClosed))
           \<and> snd (Shutdown s2) \<noteq> Panics"
  using assms
  by (auto simp: Serve_bind_def net_Listen_def Shutdown_def Listener_Close_def
      Listener_Accept_def Let_def split: option.splits sum.splits)

theorem Shutdown_closes_listener_witness:
  "Serve_bind env_closed (0::nat) (0::nat) supplied_config =
     Inr (supplied_config\<lparr>ConfigHandler := Some 0, AnalyzeHandler := Some 0,
            listener := Some \<lparr>laddr = '':8080'', closed = False\<rparr>\<rparr>,
          \<lparr>laddr = '':8080'', closed = False\<rparr>)
   \<and> (\<exists>s2 l. Shutdown (supplied_config\<lparr>ConfigHandler := Some 0, AnalyzeHandler := Some 0,
            listener := Some \<lparr>laddr = '':8080'', closed = False\<rparr>\<rparr>) = (s2, Returns None)
           \<and> listener s2 = Some l \<and> closed l
           \<and> Listener_Accept (Inr ()) l = Inl ErrClosed
           \<and> Shutdown s2 = (s2, Returns (Some ErrClosed))
           \<and> snd (Shutdown s2) \<noteq> Panics)"
proof -
  have h: "Serve_bind env_closed (0::nat) (0::nat) supplied_config =
     Inr (supplied_config\<lparr>ConfigHandler := Some 0, AnalyzeHandler := Some 0,
            listener := Some \<lparr>laddr = '':8080'', closed = False\<rparr>\<rparr>,
          \<lparr>laddr = '':8080'', closed = False\<rparr>)"
    by (simp add: Serve_bind_def net_Listen_def Let_def env_closed_def supplied_config_def)
  from h Shutdown_closes_listener [OF h, of "Inr ()"] show ?thesis by (rule conjI)
qed

section \<open>The alert webhook adapter's loop\<close>

lemma setNamespace_present:
  "Labels alert ''namespace'' = Some ns \<Longrightarrow> Namespace (setNamespace alert rq) = ns"
  by (simp add: setNamespace_def)

lemma setNamespace_absent:
  "Labels alert ''namespace'' = None \<Longrightarrow> setNamespace alert rq = rq"
  by (simp add: setNamespace_def)

lemma annotate_no_results: "annotate annotation [] alert = Some alert"
  by simp

lemma annotate_nil_map:
  "Annotations alert = None \<Longrightarrow> results \<noteq> [] \<Longrightarrow> annotate annotation results alert = None"
  by (cases results) simp_all

lemma annotate_present:
  "Annotations alert = Some m \<Longrightarrow>
     annotate annotation results alert =
       Some (alert\<lparr>Annotations :=
         Some (fold (\<lambda>result m. m(annotation \<mapsto> Details result)) results m)\<rparr>)"
  by (induction results arbitrary: alert m) simp_all

lemma annotate_stores:
  "Results resp = [] \<or> Annotations alert \<noteq> None \<Longrightarrow>
     \<exists>alert'. annotate annotation (Results resp) alert = Some alert'"
  by (cases "Annotations alert") (auto simp: annotate_present)

lemma fold_upd_other:
  "k \<noteq> annotation \<Longrightarrow>
     fold (\<lambda>result m. m(annotation \<mapsto> Details result)) results m k = m k"
  by (induction results arbitrary: m) simp_all

lemma fold_upd_last:
  "results \<noteq> [] \<Longrightarrow>
     fold (\<lambda>result m. m(annotation \<mapsto> Details result)) results m annotation =
       Some (Details (last results))"
proof (induction results arbitrary: m)
  case Nil
  then show ?case by simp
next
  case (Cons result results)
  show ?case
  proof (cases "results = []")
    case True
    then show ?thesis by simp
  next
    case False
    with Cons.IH show ?thesis by simp
  qed
qed

lemma requests_in_order_append:
  "requests_in_order rq (xs @ ys) =
     requests_in_order rq xs @ requests_in_order (last (rq # requests_in_order rq xs)) ys"
  by (induction xs arbitrary: rq) simp_all

lemma analyzeAlerts_receiver:
  "analyzeAlerts Analyze s annotation alerts run = (alerts', run', e) \<Longrightarrow>
     \<forall>c \<in> set (analyze_calls run). fst c = AnalyzeHandler s \<Longrightarrow>
     \<forall>c \<in> set (analyze_calls run'). fst c = AnalyzeHandler s"
proof (induction Analyze s annotation alerts run arbitrary: alerts' run' e
    rule: analyzeAlerts.induct)
  case (1 Analyze s annotation run)
  then show ?case by simp
next
  case (2 Analyze s annotation rest run)
  then show ?case by simp
next
  case (3 Analyze s annotation alert rest run)
  then show ?case
    by (fastforce simp: Let_def split: prod.splits sum.splits option.splits)
qed

text \<open>
  The loop on a batch that begins with alerts whose analyses all succeed and whose stores
  all go into a present annotation map: those alerts are annotated, their requests are the
  calls made, and the loop goes on with the rest of the batch. The premises speak of the
  analysis service and of the alerts only.
\<close>

lemma analyzeAlerts_prefix:
  assumes "analyses Analyze (AnalyzeHandler s) (requests_in_order (analyzeRequest run) pre)
             (world run) = (map Inr resps, mid)"
    and "\<forall>i < length pre. Results (resps ! i) = [] \<or> Annotations (pre ! i) \<noteq> None"
  shows "analyzeAlerts Analyze s annotation (map Some pre @ rest) run =
     (case analyzeAlerts Analyze s annotation rest
         (run\<lparr>analyzeRequest :=
                 last (analyzeRequest run # requests_in_order (analyzeRequest run) pre),
               analyze_calls := analyze_calls run @
                 map (Pair (AnalyzeHandler s)) (requests_in_order (analyzeRequest run) pre),
               world := mid\<rparr>) of
        (rest', run', e) \<Rightarrow>
          (map2 (\<lambda>alert resp. annotate annotation (Results resp) alert) pre resps @ rest',
           run', e))"
  using assms
proof (induction pre arbitrary: run resps)
  case Nil
  then have "mid = world run" by simp
  then show ?case by (simp split: prod.splits)
next
  case (Cons alert pre)
  let ?rq = "setNamespace alert (analyzeRequest run)"
  obtain answer stA where call: "Analyze (AnalyzeHandler s) ?rq (world run) = (answer, stA)"
    by (rule prod.exhaust)
  obtain answers stB where tl: "analyses Analyze (AnalyzeHandler s)
      (requests_in_order ?rq pre) stA = (answers, stB)"
    by (rule prod.exhaust)
  from Cons.prems(1) call tl have eq: "answer # answers = map Inr resps" and st: "stB = mid"
    by simp_all
  from eq obtain resp resps' where resps: "resps = resp # resps'"
    and answer: "answer = Inr resp" and answers: "answers = map Inr resps'"
    by (cases resps) auto
  let ?run2 = "run\<lparr>analyzeRequest := ?rq,
      analyze_calls := analyze_calls run @ [(AnalyzeHandler s, ?rq)], world := stA\<rparr>"
  have tl': "analyses Analyze (AnalyzeHandler s)
      (requests_in_order (analyzeRequest ?run2) pre) (world ?run2) = (map Inr resps', mid)"
    using tl answers st by simp
  have stores': "\<forall>i < length pre. Results (resps' ! i) = [] \<or> Annotations (pre ! i) \<noteq> None"
    using Cons.prems(2) resps by fastforce
  have "Results resp = [] \<or> Annotations alert \<noteq> None"
    using Cons.prems(2) resps by fastforce
  then obtain alert' where alert': "annotate annotation (Results resp) alert = Some alert'"
    using annotate_stores by blast
  note IH = Cons.IH [OF tl' stores']
  show ?case
    using call answer alert' resps
    by (simp add: Let_def IH split: prod.splits)
qed

lemmas webhook_defs = alertsHandler_def newRun_def newRequest_def Let_def Values_Get_def
  Values_index_def setNamespace_def Write_def new_ResponseWriter_def StatusOK_def
  webhook_request_def

lemma alertsHandler_decoded:
  "json_Decode (Body r) = Inr alerts \<Longrightarrow>
     alertsHandler Analyze json_Decode s w r st =
       analyzeAlerts Analyze s (Values_Get (Query r) ''annotation'') alerts (newRun r w st)"
  by (simp add: alertsHandler_def Let_def)

lemma last_requests_in_order:
  "last (requests_in_order rq (pre @ [alert])) =
     setNamespace alert (last (rq # requests_in_order rq pre))"
  by (simp add: requests_in_order_append)

text \<open>
  The same for the handler, from the decoded body on.
\<close>

lemma alertsHandler_reaches:
  assumes decode: "json_Decode (Body r) = Inr (map Some pre @ rest)"
    and succeed: "analyses Analyze (AnalyzeHandler s) (requests_in_order (newRequest r) pre) st =
                    (map Inr resps, mid)"
    and stored: "\<forall>i < length pre. Results (resps ! i) = [] \<or> Annotations (pre ! i) \<noteq> None"
  shows "alertsHandler Analyze json_Decode s w r st =
     (case analyzeAlerts Analyze s (Values_Get (Query r) ''annotation'') rest
         \<lparr>analyzeRequest = last (newRequest r # requests_in_order (newRequest r) pre),
          response = w,
          analyze_calls =
            map (Pair (AnalyzeHandler s)) (requests_in_order (newRequest r) pre),
          world = mid\<rparr> of
        (rest', run', e) \<Rightarrow>
          (map2 (\<lambda>alert resp.
              annotate (Values_Get (Query r) ''annotation'') (Results resp) alert) pre resps
             @ rest',
           run', e))"
  using analyzeAlerts_prefix
    [where Analyze = Analyze and s = s and pre = pre and resps = resps and mid = mid
       and run = "\<lparr>analyzeRequest = newRequest r, response = w, analyze_calls = [],
                   world = st\<rparr>"
       and annotation = "Values_Get (Query r) ''annotation''" and rest = rest]
    succeed stored
  by (simp add: alertsHandler_decoded [where json_Decode = json_Decode and r = r, OF decode]
      newRun_def)

text \<open>
  C2. The claim is that the request passed for an alert without a \<^verbatim>\<open>namespace\<close>
  label has an empty namespace, wherever the alert stands in the batch. The handler works
  on one request for the whole batch and only ever sets its namespace: in the batch of an
  alert labelled \<^verbatim>\<open>ns1\<close> followed by an alert without the label, the request passed
  for the second alert still has the namespace \<^verbatim>\<open>ns1\<close>.
\<close>

theorem alertsHandler_stale_namespace:
  "decode_ns1_unlabelled (Body webhook_request) = Inr [Some alert_ns1, Some alert_unlabelled]
   \<and> Labels alert_unlabelled ''namespace'' = None
   \<and> snd (analyze_calls (fst (snd
        (alertsHandler Analyze_crashloop decode_ns1_unlabelled supplied_config
           new_ResponseWriter webhook_request ()))) ! 1) =
       \<lparr>Backend = ''openai'', Language = [], Namespace = ''ns1'', Filters = [],
        Nocache = True, Explain = True\<rparr>"
  by (simp add: webhook_defs decode_ns1_unlabelled_def Analyze_crashloop_def crashloop_def
      alert_ns1_def alert_unlabelled_def)

text \<open>
  C4. When the body does not decode, the handler writes \<^verbatim>\<open>decode alerts. err: \<close>
  followed by the error's text and returns: nothing is analysed, no alert is touched, and
  the only status is the 200 that the first write on a fresh response writer implies.
\<close>

theorem alertsHandler_decode_failure:
  assumes "json_Decode (Body r) = Inl err"
  shows "alertsHandler Analyze json_Decode s new_ResponseWriter r st =
           ([],
            (newRun r new_ResponseWriter st)
              \<lparr>response := \<lparr>status = Some 200,
                             written = ''decode alerts. err: '' @ Error err\<rparr>\<rparr>,
            Returned)
         \<and> analyze_calls (fst (snd (alertsHandler Analyze json_Decode s new_ResponseWriter r st))) = []
         \<and> world (fst (snd (alertsHandler Analyze json_Decode s new_ResponseWriter r st))) = st"
  using assms
  by (simp add: alertsHandler_def newRun_def Let_def Write_def new_ResponseWriter_def StatusOK_def)

theorem alertsHandler_decode_failure_witness:
  "decode_fails (Body webhook_request) = Inl (ErrorString ''unexpected end of JSON input'')
   \<and> fst (alertsHandler Analyze_crashloop decode_fails supplied_config
          new_ResponseWriter webhook_request ()) = []
   \<and> response (fst (snd (alertsHandler Analyze_crashloop decode_fails supplied_config
          new_ResponseWriter webhook_request ())))
       = \<lparr>status = Some 200, written = ''decode alerts. err: unexpected end of JSON input''\<rparr>
   \<and> analyze_calls (fst (snd (alertsHandler Analyze_crashloop decode_fails supplied_config
          new_ResponseWriter webhook_request ()))) = []
   \<and> snd (snd (alertsHandler Analyze_crashloop decode_fails supplied_config
          new_ResponseWriter webhook_request ())) = Returned"
proof -
  have h: "decode_fails (Body webhook_request) = Inl (ErrorString ''unexpected end of JSON input'')"
    by (simp add: decode_fails_def)
  show ?thesis
    using h alertsHandler_decode_failure
      [where json_Decode = decode_fails and r = webhook_request and Analyze = Analyze_crashloop
         and s = supplied_config and st = "()", OF h]
    by (simp add: newRun_def Let_def)
qed



text \<open>
  What the handler does at an alert that it reaches and whose analysis succeeds. When the
  alert has an annotation map, every result's details are stored in turn under the key
  given by the \<^verbatim>\<open>annotation\<close> query parameter. When the alert's annotation map is
  nil and there is a result, the store panics and the alert is left as it was. A nil alert
  makes the handler panic before any call for it.
\<close>

lemma alertsHandler_annotates_present:
  assumes decode: "json_Decode (Body r) = Inr (map Some pre @ Some alert # post)"
    and succeed: "analyses Analyze (AnalyzeHandler s) (requests_in_order (newRequest r) pre) st =
                    (map Inr resps, mid)"
    and stored: "\<forall>i < length pre. Results (resps ! i) = [] \<or> Annotations (pre ! i) \<noteq> None"
    and ok: "Analyze (AnalyzeHandler s)
               (last (requests_in_order (newRequest r) (pre @ [alert]))) mid = (Inr resp, st')"
    and present: "Annotations alert = Some m"
  shows "\<exists>post' run' e.
           alertsHandler Analyze json_Decode s w r st =
             (map2 (\<lambda>alert resp.
                 annotate (Values_Get (Query r) ''annotation'') (Results resp) alert) pre resps
                @ Some (alert\<lparr>Annotations := Some
                     (fold (\<lambda>result m. m(Values_Get (Query r) ''annotation'' \<mapsto> Details result))
                        (Results resp) m)\<rparr>) # post',
              run', e)"
proof -
  note reach = alertsHandler_reaches
    [where json_Decode = json_Decode and r = r and w = w, OF decode succeed stored]
  from ok have "Analyze (AnalyzeHandler s)
      (setNamespace alert (last (newRequest r # requests_in_order (newRequest r) pre))) mid =
      (Inr resp, st')"
    by (simp only: last_requests_in_order)
  then show ?thesis
    by (simp add: reach Let_def annotate_present [OF present] split: prod.splits)
qed

lemma alertsHandler_store_into_nil_map:
  assumes decode: "json_Decode (Body r) = Inr (map Some pre @ Some alert # post)"
    and succeed: "analyses Analyze (AnalyzeHandler s) (requests_in_order (newRequest r) pre) st =
                    (map Inr resps, mid)"
    and stored: "\<forall>i < length pre. Results (resps ! i) = [] \<or> Annotations (pre ! i) \<noteq> None"
    and ok: "Analyze (AnalyzeHandler s)
               (last (requests_in_order (newRequest r) (pre @ [alert]))) mid = (Inr resp, st')"
    and nil: "Annotations alert = None" "Results resp \<noteq> []"
  shows "alertsHandler Analyze json_Decode s w r st =
           (map2 (\<lambda>alert resp.
               annotate (Values_Get (Query r) ''annotation'') (Results resp) alert) pre resps
              @ Some alert # post,
            \<lparr>analyzeRequest = last (requests_in_order (newRequest r) (pre @ [alert])),
             response = w,
             analyze_calls =
               map (Pair (AnalyzeHandler s)) (requests_in_order (newRequest r) (pre @ [alert])),
             world = st'\<rparr>,
            Panicked)"
proof -
  note reach = alertsHandler_reaches
    [where json_Decode = json_Decode and r = r and w = w, OF decode succeed stored]
  from ok have "Analyze (AnalyzeHandler s)
      (setNamespace alert (last (newRequest r # requests_in_order (newRequest r) pre))) mid =
      (Inr resp, st')"
    by (simp only: last_requests_in_order)
  then show ?thesis
    by (simp add: reach Let_def annotate_nil_map [OF nil] requests_in_order_append)
qed

lemma alertsHandler_nil_alert:
  assumes decode: "json_Decode (Body r) = Inr (map Some pre @ None # post)"
    and succeed: "analyses Analyze (AnalyzeHandler s) (requests_in_order (newRequest r) pre) st =
                    (map Inr resps, mid)"
    and stored: "\<forall>i < length pre. Results (resps ! i) = [] \<or> Annotations (pre ! i) \<noteq> None"
  shows "alertsHandler Analyze json_Decode s w r st =
           (map2 (\<lambda>alert resp.
               annotate (Values_Get (Query r) ''annotation'') (Results resp) alert) pre resps
              @ None # post,
            \<lparr>analyzeRequest = last (newRequest r # requests_in_order (newRequest r) pre),
             response = w,
             analyze_calls =
               map (Pair (AnalyzeHandler s)) (requests_in_order (newRequest r) pre),
             world = mid\<rparr>,
            Panicked)"
  by (simp add: alertsHandler_reaches
      [where json_Decode = json_Decode and r = r and w = w, OF decode succeed stored])

text \<open>
  C6. The claim is that for every alert whose analysis succeeds the results' details are
  written into the alert's annotations. For an alert that was sent without an
  \<^verbatim>\<open>annotations\<close> member the annotation map is nil: the analysis is called and
  succeeds with one result, and the handler panics at the store, with nothing written
  into the alert and no response.
\<close>

theorem alertsHandler_nil_annotations_panics:
  "decode_no_annotations (Body webhook_request) = Inr [Some alert_no_annotations]
   \<and> Annotations alert_no_annotations = None
   \<and> Analyze_crashloop (AnalyzeHandler supplied_config)
       \<lparr>Backend = ''openai'', Language = [], Namespace = ''prod'', Filters = [],
        Nocache = True, Explain = True\<rparr> () =
       (Inr \<lparr>Results = [\<lparr>Details = ''pod crashlooping''\<rparr>]\<rparr>, ())
   \<and> alertsHandler Analyze_crashloop decode_no_annotations supplied_config
       new_ResponseWriter webhook_request () =
     ([Some alert_no_annotations],
      \<lparr>analyzeRequest =
         \<lparr>Backend = ''openai'', Language = [], Namespace = ''prod'', Filters = [],
          Nocache = True, Explain = True\<rparr>,
       response = \<lparr>status = None, written = []\<rparr>,
       analyze_calls =
         [(Some 2, \<lparr>Backend = ''openai'', Language = [], Namespace = ''prod'', Filters = [],
                    Nocache = True, Explain = True\<rparr>)],
       world = ()\<rparr>,
      Panicked)"
  by (simp add: webhook_defs decode_no_annotations_def Analyze_crashloop_def crashloop_def
      alert_no_annotations_def supplied_config_def)

section \<open>The handlers held by the configuration\<close>

text \<open>
  C10, as claimed: \<^verbatim>\<open>Serve\<close> always replaces the handlers, and a configuration on
  which \<^verbatim>\<open>Serve\<close> has not run has no analysis handler for the webhook. Neither
  holds for a configuration that was given handlers: when the port cannot be bound,
  \<^verbatim>\<open>Serve\<close> leaves the supplied analysis handler in place, and the webhook handler of
  a configuration on which \<^verbatim>\<open>Serve\<close> never ran calls the supplied handler.
\<close>

theorem Serve_replaces_handlers_counterexample:
  "AnalyzeHandler (fst (Serve env_port_in_use (0::nat) (0::nat) supplied_config)) = Some 2
   \<and> AnalyzeHandler (fst (Serve env_port_in_use (0::nat) (0::nat) supplied_config)) \<noteq> Some 0
   \<and> listener supplied_config = None
   \<and> fst (hd (analyze_calls (fst (snd (alertsHandler Analyze_crashloop decode_prod
        supplied_config new_ResponseWriter webhook_request ()))))) = Some 2"
  by (simp add: Serve_defs env_port_in_use_def supplied_config_def webhook_defs
      decode_prod_def Analyze_crashloop_def crashloop_def alert_prod_def)

text \<open>
  C10, amended. When \<^verbatim>\<open>Serve\<close> binds its listener, it replaces both handlers of the
  configuration by fresh ones; when the bind fails, it returns the bind error and leaves the
  configuration as it was. Every analysis call of the webhook handler goes to the handler
  that the configuration holds.
\<close>

theorem Serve_replaces_handlers_when_bound:
  "(tcp_bind env ('':'' @ Port s) = None \<longrightarrow>
      ConfigHandler (fst (Serve env nc na s)) = Some nc \<and>
      AnalyzeHandler (fst (Serve env nc na s)) = Some na)
   \<and> (tcp_bind env ('':'' @ Port s) = Some err \<longrightarrow>
      Serve env nc na s = (s, [Listen_call ('':'' @ Port s) (Some err)], Returns (Some err)))
   \<and> (\<forall>c \<in> set (analyze_calls (fst (snd (alertsHandler Analyze json_Decode s w r st)))).
        fst c = AnalyzeHandler s)"
proof -
  have a: "tcp_bind env ('':'' @ Port s) = None \<longrightarrow>
      ConfigHandler (fst (Serve env nc na s)) = Some nc \<and>
      AnalyzeHandler (fst (Serve env nc na s)) = Some na"
    by (simp add: Serve_def Serve_bind_def net_Listen_def Let_def split: prod.splits)
  have b: "tcp_bind env ('':'' @ Port s) = Some err \<longrightarrow>
      Serve env nc na s = (s, [Listen_call ('':'' @ Port s) (Some err)], Returns (Some err))"
    by (simp add: Serve_def Serve_bind_def net_Listen_def Let_def)
  have c: "\<forall>c \<in> set (analyze_calls (fst (snd (alertsHandler Analyze json_Decode s w r st)))).
      fst c = AnalyzeHandler s"
  proof (cases "json_Decode (Body r)")
    case (Inl err)
    then show ?thesis by (simp add: alertsHandler_def newRun_def Let_def)
  next
    case (Inr alerts)
    obtain alerts' run' e where run:
      "analyzeAlerts Analyze s (Values_Get (Query r) ''annotation'') alerts (newRun r w st) =
         (alerts', run', e)"
      by (rule prod_cases3)
    have "\<forall>c \<in> set (analyze_calls (newRun r w st :: ('b, 'c) Run)). fst c = AnalyzeHandler s"
      by (simp add: newRun_def Let_def)
    from analyzeAlerts_receiver [OF run this] Inr run show ?thesis
      by (simp add: alertsHandler_def Let_def)
  qed
  from a b c show ?thesis by simp
qed

theorem Serve_replaces_handlers_when_bound_witness:
  "tcp_bind env_closed ('':'' @ Port supplied_config) = None
   \<and> ConfigHandler (fst (Serve env_closed (0::nat) (0::nat) supplied_config)) = Some 0
   \<and> AnalyzeHandler (fst (Serve env_closed (0::nat) (0::nat) supplied_config)) = Some 0
   \<and> tcp_bind env_port_in_use ('':'' @ Port supplied_config) =
       Some (ErrorString ''bind: address already in use'')
   \<and> Serve env_port_in_use (0::nat) (0::nat) supplied_config =
       (supplied_config,
        [Listen_call '':8080'' (Some (ErrorString ''bind: address already in use''))],
        Returns (Some (ErrorString ''bind: address already in use'')))
   \<and> hd (analyze_calls (fst (snd (alertsHandler Analyze_crashloop decode_prod
        supplied_config new_ResponseWriter webhook_request ()))))
       \<in> set (analyze_calls (fst (snd (alertsHandler Analyze_crashloop decode_prod
        supplied_config new_ResponseWriter webhook_request ()))))
   \<and> fst (hd (analyze_calls (fst (snd (alertsHandler Analyze_crashloop decode_prod
        supplied_config new_ResponseWriter webhook_request ()))))) = Some 2"
proof -
  have h1: "tcp_bind env_closed ('':'' @ Port supplied_config) = None"
    by (simp add: env_closed_def)
  have h2: "tcp_bind env_port_in_use ('':'' @ Port supplied_config) =
      Some (ErrorString ''bind: address already in use'')"
    by (simp add: env_port_in_use_def)
  have h3: "hd (analyze_calls (fst (snd (alertsHandler Analyze_crashloop decode_prod
        supplied_config new_ResponseWriter webhook_request ()))))
       \<in> set (analyze_calls (fst (snd (alertsHandler Analyze_crashloop decode_prod
        supplied_config new_ResponseWriter webhook_request ()))))"
    by (simp add: webhook_defs decode_prod_def Analyze_crashloop_def crashloop_def alert_prod_def)
  have p: "Port supplied_config = ''8080''" "AnalyzeHandler supplied_config = Some 2"
    by (simp_all add: supplied_config_def)
  note a = Serve_replaces_handlers_when_bound
    [where env = env_closed and s = supplied_config and nc = 0 and na = 0
       and Analyze = Analyze_crashloop and json_Decode = decode_prod
       and w = new_ResponseWriter and r = webhook_request and st = "()"]
  note b = Serve_replaces_handlers_when_bound
    [where env = env_port_in_use and s = supplied_config and nc = 0 and na = 0
       and err = "ErrorString ''bind: address already in use''"
       and Analyze = Analyze_crashloop and json_Decode = decode_prod
       and w = new_ResponseWriter and r = webhook_request and st = "()"]
  from a h1 have c1: "ConfigHandler (fst (Serve env_closed (0::nat) (0::nat) supplied_config)) = Some 0"
    and c2: "AnalyzeHandler (fst (Serve env_closed (0::nat) (0::nat) supplied_config)) = Some 0"
    by blast+
  from b h2 have c3: "Serve env_port_in_use (0::nat) (0::nat) supplied_config =
       (supplied_config,
        [Listen_call '':8080'' (Some (ErrorString ''bind: address already in use''))],
        Returns (Some (ErrorString ''bind: address already in use'')))"
    by (simp add: p)
  from a h3 have c4: "fst (hd (analyze_calls (fst (snd (alertsHandler Analyze_crashloop decode_prod
        supplied_config new_ResponseWriter webhook_request ()))))) = Some 2"
    by (simp add: p)
  from h1 c1 c2 h2 c3 h3 c4 show ?thesis by blast
qed

end
